theory Spec2Isabelle
  imports Complex_Main "HOL-Library.Word"
begin

section \<open>Values, sessions and errors\<close>

text \<open>
  The Flask session is a string-keyed dictionary of Python values. The values the program
  stores are strings (the state nonce, a URL), decoded JSON (the provider's profile) and the
  list of flashed messages, so one datatype of Python values covers them.
\<close>

datatype pyval =
    PNone
  | PBool bool
  | PInt int
  | PFloat real
  | PStr string
  | PList "pyval list"
  | PDict "(string \<times> pyval) list"

text \<open>Python truthiness, as used by \<^verbatim>\<open>if not x\<close>.\<close>

fun truthy :: "pyval \<Rightarrow> bool" where
  "truthy PNone = False"
| "truthy (PBool b) = b"
| "truthy (PInt i) = (i \<noteq> 0)"
| "truthy (PFloat r) = (r \<noteq> 0)"
| "truthy (PStr s) = (s \<noteq> [])"
| "truthy (PList xs) = (xs \<noteq> [])"
| "truthy (PDict kvs) = (kvs \<noteq> [])"

type_synonym session = "string \<rightharpoonup> pyval"

text \<open>\<^verbatim>\<open>session.get(key)\<close>: the value, or \<^verbatim>\<open>None\<close> when the key is absent.\<close>

definition session_get :: "session \<Rightarrow> string \<Rightarrow> pyval" where
  "session_get s k = (case s k of None \<Rightarrow> PNone | Some v \<Rightarrow> v)"

text \<open>\<^verbatim>\<open>session.pop(key, default)\<close>: the value read and the session without the key.\<close>

definition session_pop :: "session \<Rightarrow> string \<Rightarrow> pyval \<Rightarrow> pyval \<times> session" where
  "session_pop s k d = (case s k of None \<Rightarrow> (d, s) | Some v \<Rightarrow> (v, s(k := None)))"

text \<open>
  The exceptions of the program. \<open>BadRequest\<close> and \<open>InternalServerError\<close> are the two the
  service raises itself; \<open>AttributeError\<close> is a method call on \<^verbatim>\<open>None\<close>; \<open>External\<close> is
  an exception raised inside a collaborator (the HTTP client, the OAuth client library, the
  JSON decoder).
\<close>

datatype error =
    BadRequest string
  | InternalServerError string
  | AttributeError
  | External string

section \<open>Providers (\<^verbatim>\<open>OAuthProvider\<close>, \<^verbatim>\<open>get_provider\<close>)\<close>

datatype OAuthProvider = GOOGLE | FACEBOOK | LINKEDIN

fun provider_value :: "OAuthProvider \<Rightarrow> string" where
  "provider_value GOOGLE = ''google''"
| "provider_value FACEBOOK = ''facebook''"
| "provider_value LINKEDIN = ''linkedin''"

text \<open>\<^verbatim>\<open>utils.get_provider\<close>: the result \<open>None\<close> is the Python \<^verbatim>\<open>return None\<close>.\<close>

definition get_provider :: "string \<Rightarrow> OAuthProvider option" where
  "get_provider provider_name =
     (if provider_name = provider_value GOOGLE then Some GOOGLE
      else if provider_name = provider_value LINKEDIN then Some LINKEDIN
      else if provider_name = provider_value FACEBOOK then Some FACEBOOK
      else None)"

section \<open>Configuration (\<^verbatim>\<open>config.py\<close>)\<close>

record Config =
  DEBUG :: bool
  GOOGLE_CLIENT_ID :: string
  GOOGLE_CLIENT_SECRET :: string
  FACEBOOK_CLIENT_ID :: string
  FACEBOOK_CLIENT_SECRET :: string
  LINKEDIN_CLIENT_ID :: string
  LINKEDIN_CLIENT_SECRET :: string

text \<open>
  The configuration source: the process environment, and the \<^verbatim>\<open>.env\<close> file behind it.
\<close>

record config_source =
  environ :: "string \<rightharpoonup> string"
  dotenv :: "string \<rightharpoonup> string"

definition source_lookup :: "config_source \<Rightarrow> string \<Rightarrow> string option" where
  "source_lookup src k = (case environ src k of Some v \<Rightarrow> Some v | None \<Rightarrow> dotenv src k)"

datatype startup_error = ValidationError "string list" | ImportError string

text \<open>
  The required fields are the ones declared with \<^verbatim>\<open>Field(...)\<close>; \<open>DEBUG\<close> has the default
  \<open>False\<close>. The parser of boolean settings belongs to the settings library and is a
  parameter \<open>parse_bool\<close>.
\<close>

definition required_fields :: "string list" where
  "required_fields =
     [''GOOGLE_CLIENT_ID'', ''GOOGLE_CLIENT_SECRET'',
      ''FACEBOOK_CLIENT_ID'', ''FACEBOOK_CLIENT_SECRET'',
      ''LINKEDIN_CLIENT_ID'', ''LINKEDIN_CLIENT_SECRET'']"

definition missing_fields :: "config_source \<Rightarrow> string list" where
  "missing_fields src = filter (\<lambda>k. source_lookup src k = None) required_fields"

definition debug_field :: "(string \<Rightarrow> bool option) \<Rightarrow> config_source \<Rightarrow> bool option" where
  "debug_field parse_bool src =
     (case source_lookup src ''DEBUG'' of None \<Rightarrow> Some False | Some v \<Rightarrow> parse_bool v)"

text \<open>
  \<^verbatim>\<open>Config()\<close>: the constructor validates every field and raises \<open>ValidationError\<close>
  naming the fields it rejects: a required field that no source provides, or a \<open>DEBUG\<close>
  value that is not a boolean.
\<close>

definition Config_init :: "(string \<Rightarrow> bool option) \<Rightarrow> config_source \<Rightarrow> startup_error + Config" where
  "Config_init parse_bool src =
     (let bad = (case debug_field parse_bool src of None \<Rightarrow> [''DEBUG''] | Some _ \<Rightarrow> [])
                @ missing_fields src
      in if bad \<noteq> [] then Inl (ValidationError bad)
         else Inr \<lparr> DEBUG = the (debug_field parse_bool src),
                    GOOGLE_CLIENT_ID = the (source_lookup src ''GOOGLE_CLIENT_ID''),
                    GOOGLE_CLIENT_SECRET = the (source_lookup src ''GOOGLE_CLIENT_SECRET''),
                    FACEBOOK_CLIENT_ID = the (source_lookup src ''FACEBOOK_CLIENT_ID''),
                    FACEBOOK_CLIENT_SECRET = the (source_lookup src ''FACEBOOK_CLIENT_SECRET''),
                    LINKEDIN_CLIENT_ID = the (source_lookup src ''LINKEDIN_CLIENT_ID''),
                    LINKEDIN_CLIENT_SECRET = the (source_lookup src ''LINKEDIN_CLIENT_SECRET'') \<rparr>)"

text \<open>
  Executing the module \<^verbatim>\<open>config.py\<close>: the \<^verbatim>\<open>try\<close> block binds \<^verbatim>\<open>settings\<close>; the
  \<^verbatim>\<open>except ValidationError\<close> handler prints the error and binds nothing. The result is the
  module's binding of \<^verbatim>\<open>settings\<close> (if any) and the lines printed.
\<close>

record config_module =
  settings :: "Config option"
  printed :: "startup_error list"

definition load_config_module :: "(string \<Rightarrow> bool option) \<Rightarrow> config_source \<Rightarrow> config_module" where
  "load_config_module parse_bool src =
     (case Config_init parse_bool src of
        Inr c \<Rightarrow> \<lparr> settings = Some c, printed = [] \<rparr>
      | Inl e \<Rightarrow> \<lparr> settings = None, printed = [e] \<rparr>)"

text \<open>
  \<^verbatim>\<open>from src.config import settings\<close>, the first statement of the service module that
  needs the configuration: a name the module did not bind raises \<open>ImportError\<close>.
  \<open>create_app\<close> reaches it through its import of the routes, after it has built the
  application object, which does not read the credentials; its outcome here is the failure
  of that import, or the settings the service module got.
\<close>

definition import_settings :: "config_module \<Rightarrow> startup_error + Config" where
  "import_settings m =
     (case settings m of None \<Rightarrow> Inl (ImportError ''settings'') | Some c \<Rightarrow> Inr c)"

definition create_app :: "(string \<Rightarrow> bool option) \<Rightarrow> config_source \<Rightarrow> startup_error + Config" where
  "create_app parse_bool src = import_settings (load_config_module parse_bool src)"

section \<open>Collaborators\<close>

text \<open>
  The incoming request (\<^verbatim>\<open>request.args\<close> and the host the URLs are built for), an HTTP
  response as the service reads it (\<^verbatim>\<open>status_code\<close>, \<^verbatim>\<open>text\<close>, and the outcome of
  \<^verbatim>\<open>.json()\<close>, which raises on a body that is not JSON), and the collaborators whose
  answers the service cannot influence: the random source behind \<^verbatim>\<open>os.urandom\<close>, the HTTP
  client's \<^verbatim>\<open>post\<close>, and the OAuth client library's \<^verbatim>\<open>authorize_access_token\<close> and
  \<^verbatim>\<open>get\<close>. A collaborator either raises or answers. The client library keeps
  bookkeeping of its own in the session, under keys of its own; those keys are not part of
  this model, which follows the keys the program reads and writes.
\<close>

record request =
  args :: "string \<rightharpoonup> string"
  host :: string

record http_response =
  status_code :: int
  text_body :: string
  json_body :: "error + pyval"

record collaborators =
  random_bytes :: "nat \<Rightarrow> 8 word"
  httpx_post :: "string \<Rightarrow> (string \<times> pyval) list \<Rightarrow> error + http_response"
  authorize_access_token :: "OAuthProvider \<Rightarrow> error + pyval"
  client_get :: "OAuthProvider \<Rightarrow> string \<Rightarrow> pyval \<Rightarrow> error + http_response"

text \<open>
  Every call that leaves the process is appended to a trace, so that "no outbound request
  was made" is a statement about the state.
\<close>

datatype outbound =
    TokenPost string "(string \<times> pyval) list"
  | AuthorizeAccessToken OAuthProvider
  | UserinfoGet OAuthProvider string pyval

record state =
  session :: session
  trace :: "outbound list"

text \<open>
  What a handler hands back: a redirect to a location, the authorization redirect that the
  client library builds from a callback URL and a state value, or a rendered template with
  the \<^verbatim>\<open>user\<close> it was given.
\<close>

datatype response =
    Redirect pyval
  | AuthorizeRedirect OAuthProvider string string
  | Render string "pyval option"

text \<open>The \<open>state\<close> query parameter of a produced redirect, when there is one.\<close>

fun redirect_state :: "error + response \<Rightarrow> string option" where
  "redirect_state (Inr (AuthorizeRedirect oauth_client redirect_uri st_param)) = Some st_param"
| "redirect_state _ = None"

section \<open>The OAuth service (\<^verbatim>\<open>services/oauth.py\<close>)\<close>

text \<open>\<^verbatim>\<open>self.clients.get(provider)\<close>: one client per enum member, none for \<^verbatim>\<open>None\<close>.\<close>

definition clients_get :: "OAuthProvider option \<Rightarrow> OAuthProvider option" where
  "clients_get provider = (case provider of None \<Rightarrow> None | Some p \<Rightarrow> Some p)"

text \<open>The provider inside an f-string.\<close>

definition format_provider :: "OAuthProvider option \<Rightarrow> string" where
  "format_provider provider = (case provider of None \<Rightarrow> ''None'' | Some p \<Rightarrow> provider_value p)"

text \<open>\<^verbatim>\<open>bytes.hex()\<close>: two lower-case hexadecimal digits per byte.\<close>

definition hex_digit :: "nat \<Rightarrow> char" where
  "hex_digit n = ''0123456789abcdef'' ! n"

definition byte_hex :: "8 word \<Rightarrow> string" where
  "byte_hex b = [hex_digit (unat b div 16), hex_digit (unat b mod 16)]"

definition bytes_hex :: "8 word list \<Rightarrow> string" where
  "bytes_hex bs = concat (map byte_hex bs)"

text \<open>\<^verbatim>\<open>os.urandom(n)\<close>: the next \<open>n\<close> bytes of the random source.\<close>

definition os_urandom :: "collaborators \<Rightarrow> nat \<Rightarrow> 8 word list" where
  "os_urandom env n = map (random_bytes env) [0..<n]"

text \<open>The URLs \<^verbatim>\<open>url_for\<close> builds from the routes of the blueprint.\<close>

definition url_for_auth_callback :: "Config \<Rightarrow> request \<Rightarrow> OAuthProvider \<Rightarrow> string" where
  "url_for_auth_callback cfg req p =
     (if \<not> DEBUG cfg then ''https'' else ''http'') @ ''://'' @ host req
       @ ''/auth/'' @ provider_value p @ ''/callback''"

definition url_for_success :: string where "url_for_success = ''/success''"
definition url_for_failure :: string where "url_for_failure = ''/failure''"
definition url_for_index :: string where "url_for_index = ''/''"

definition initiate_social_login ::
  "Config \<Rightarrow> collaborators \<Rightarrow> request \<Rightarrow> state \<Rightarrow> OAuthProvider option
     \<Rightarrow> (error + response) \<times> state" where
  "initiate_social_login cfg env req st provider =
     (case (clients_get provider, provider) of
        (Some oauth_client, Some p) \<Rightarrow>
          (let redirect_uri = url_for_auth_callback cfg req p;
               s1 = (session st)(''redirect_path'' \<mapsto> PStr redirect_uri);
               st_nonce = bytes_hex (os_urandom env 16);
               s2 = s1(''oauth_state'' \<mapsto> PStr st_nonce)
           in (Inr (AuthorizeRedirect oauth_client redirect_uri st_nonce), st\<lparr>session := s2\<rparr>))
      | _ \<Rightarrow> (Inl (BadRequest (''Unsupported provider: '' @ format_provider provider)), st))"

definition linkedin_token_url :: string where
  "linkedin_token_url = ''https://www.linkedin.com/oauth/v2/accessToken''"

definition opt_str :: "string option \<Rightarrow> pyval" where
  "opt_str x = (case x of None \<Rightarrow> PNone | Some s \<Rightarrow> PStr s)"

text \<open>The form \<^verbatim>\<open>token_data\<close> posted to LinkedIn's token endpoint.\<close>

definition token_data :: "Config \<Rightarrow> request \<Rightarrow> (string \<times> pyval) list" where
  "token_data cfg req =
     [(''grant_type'', PStr ''authorization_code''),
      (''code'', opt_str (args req ''code'')),
      (''redirect_uri'', PStr (url_for_auth_callback cfg req LINKEDIN)),
      (''client_id'', PStr (LINKEDIN_CLIENT_ID cfg)),
      (''client_secret'', PStr (LINKEDIN_CLIENT_SECRET cfg))]"

definition get_token ::
  "Config \<Rightarrow> collaborators \<Rightarrow> request \<Rightarrow> state \<Rightarrow> OAuthProvider option
     \<Rightarrow> (error + pyval) \<times> state" where
  "get_token cfg env req st provider =
     (if provider = Some LINKEDIN then
        (let form = token_data cfg req;
             st' = st\<lparr>trace := trace st @ [TokenPost linkedin_token_url form]\<rparr>
         in case httpx_post env linkedin_token_url form of
              Inl e \<Rightarrow> (Inl e, st')
            | Inr token_response \<Rightarrow>
                if status_code token_response \<noteq> 200
                then (Inl (BadRequest (''Failed to fetch access token: ''
                                        @ text_body token_response)), st')
                else (json_body token_response, st'))
      else
        (case clients_get provider of
           None \<Rightarrow> (Inl AttributeError, st)
         | Some oauth_client \<Rightarrow>
             (authorize_access_token env oauth_client,
              st\<lparr>trace := trace st @ [AuthorizeAccessToken oauth_client]\<rparr>)))"

definition userinfo_url :: "OAuthProvider option \<Rightarrow> string" where
  "userinfo_url provider =
     (if provider = Some LINKEDIN then ''https://api.linkedin.com/v2/userinfo''
      else if provider = Some FACEBOOK
        then ''https://graph.facebook.com/v12.0/me?fields=id,name,email,picture''
      else ''https://www.googleapis.com/oauth2/v1/userinfo'')"

text \<open>
  \<^verbatim>\<open>fetch_user_data\<close>: every exception inside the \<^verbatim>\<open>try\<close> is caught and turned into
  \<^verbatim>\<open>None\<close>; a 200 answer is returned as decoded, with no field renamed, added or dropped.
\<close>

definition fetch_user_data ::
  "collaborators \<Rightarrow> state \<Rightarrow> OAuthProvider option \<Rightarrow> pyval \<Rightarrow> pyval \<times> state" where
  "fetch_user_data env st provider token =
     (case clients_get provider of
        None \<Rightarrow> (PNone, st)
      | Some oauth_client \<Rightarrow>
          (let url = userinfo_url provider;
               st' = st\<lparr>trace := trace st @ [UserinfoGet oauth_client url token]\<rparr>
           in case client_get env oauth_client url token of
                Inl e \<Rightarrow> (PNone, st')
              | Inr resp \<Rightarrow>
                  if status_code resp = 200
                  then (case json_body resp of Inl e \<Rightarrow> (PNone, st') | Inr v \<Rightarrow> (v, st'))
                  else (PNone, st')))"

definition handle_oauth_callback ::
  "Config \<Rightarrow> collaborators \<Rightarrow> request \<Rightarrow> state \<Rightarrow> OAuthProvider option
     \<Rightarrow> (error + response) \<times> state" where
  "handle_oauth_callback cfg env req st provider =
     (let stored_state = session_get (session st) ''oauth_state'';
          received_state = opt_str (args req ''state'')
      in if \<not> truthy stored_state \<or> stored_state \<noteq> received_state
         then (Inl (BadRequest ''Invalid state parameter.''), st)
         else
           (let st1 = st\<lparr>session := snd (session_pop (session st) ''oauth_state'' PNone)\<rparr>
            in case get_token cfg env req st1 provider of
                 (Inl e, st2) \<Rightarrow> (Inl e, st2)
               | (Inr token, st2) \<Rightarrow>
                   (case fetch_user_data env st2 provider token of
                      (user_data, st3) \<Rightarrow>
                        if \<not> truthy user_data
                        then (Inl (InternalServerError ''Failed to fetch user data.''), st3)
                        else
                          (let s4 = (session st3)(''user_data'' \<mapsto> user_data);
                               popped = session_pop s4 ''redirect_path'' (PStr url_for_success)
                           in (Inr (Redirect (fst popped)), st3\<lparr>session := snd popped\<rparr>)))))"

section \<open>The routes (\<^verbatim>\<open>routes/auth.py\<close>)\<close>

text \<open>
  \<^verbatim>\<open>flash(message)\<close> appends the pair of the default category and the message to the
  session's list of flashes.
\<close>

definition flash :: "session \<Rightarrow> string \<Rightarrow> error + session" where
  "flash s message =
     (let entry = PList [PStr ''message'', PStr message]
      in case s ''_flashes'' of
           None \<Rightarrow> Inr (s(''_flashes'' \<mapsto> PList [entry]))
         | Some (PList flashes) \<Rightarrow> Inr (s(''_flashes'' \<mapsto> PList (flashes @ [entry])))
         | Some _ \<Rightarrow> Inl AttributeError)"

definition index :: "state \<Rightarrow> (error + response) \<times> state" where
  "index st =
     (let user_data = session_get (session st) ''user''
      in (Inr (Render ''index.html'' (Some user_data)), st))"

definition social_login ::
  "Config \<Rightarrow> collaborators \<Rightarrow> request \<Rightarrow> state \<Rightarrow> string \<Rightarrow> (error + response) \<times> state" where
  "social_login cfg env req st provider =
     (case initiate_social_login cfg env req st (get_provider provider) of
        (Inr redirect_url, st') \<Rightarrow> (Inr redirect_url, st')
      | (Inl e, st') \<Rightarrow>
          (case flash (session st') ''Failed to initiate social login.'' of
             Inl e' \<Rightarrow> (Inl e', st')
           | Inr s' \<Rightarrow> (Inr (Redirect (PStr url_for_index)), st'\<lparr>session := s'\<rparr>)))"

definition auth_callback ::
  "Config \<Rightarrow> collaborators \<Rightarrow> request \<Rightarrow> state \<Rightarrow> string \<Rightarrow> (error + response) \<times> state" where
  "auth_callback cfg env req st provider =
     (case handle_oauth_callback cfg env req st (get_provider provider) of
        (Inl e, st') \<Rightarrow> (Inr (Redirect (PStr url_for_failure)), st')
      | (Inr r, st') \<Rightarrow>
          (case session st' ''user_data'' of
             None \<Rightarrow> (Inr (Redirect (PStr url_for_failure)), st')
           | Some user_data \<Rightarrow>
               if truthy user_data then (Inr (Redirect (PStr url_for_success)), st')
               else (Inr (Redirect (PStr url_for_failure)), st')))"

definition success :: "state \<Rightarrow> (error + response) \<times> state" where
  "success st =
     (let user_data = session_get (session st) ''user_data''
      in if \<not> truthy user_data then (Inr (Redirect (PStr url_for_failure)), st)
         else (Inr (Render ''success.html'' (Some user_data)), st))"

definition failure :: "state \<Rightarrow> (error + response) \<times> state" where
  "failure st = (Inr (Render ''failure.html'' None), st)"

definition logout :: "state \<Rightarrow> (error + response) \<times> state" where
  "logout st = (Inr (Redirect (PStr url_for_index)), st\<lparr>session := Map.empty\<rparr>)"

text \<open>
  The session states a browser can reach: a fresh session is empty, and every request runs
  one route, with any configuration, request and collaborator answers.
\<close>

inductive reachable :: "state \<Rightarrow> bool" where
  fresh: "reachable \<lparr>session = Map.empty, trace = []\<rparr>"
| via_index: "reachable st \<Longrightarrow> reachable (snd (index st))"
| via_social_login: "reachable st \<Longrightarrow> reachable (snd (social_login cfg env req st provider))"
| via_auth_callback: "reachable st \<Longrightarrow> reachable (snd (auth_callback cfg env req st provider))"
| via_success: "reachable st \<Longrightarrow> reachable (snd (success st))"
| via_failure: "reachable st \<Longrightarrow> reachable (snd (failure st))"
| via_logout: "reachable st \<Longrightarrow> reachable (snd (logout st))"

section \<open>Concrete inputs\<close>

text \<open>
  A configuration, requests and collaborator answers used to run the model: a provider that
  accepts the code and answers the profile request with LinkedIn's field names, and one
  whose token endpoint answers 401.
\<close>

definition example_config :: Config where
  "example_config =
     \<lparr> DEBUG = True,
       GOOGLE_CLIENT_ID = ''gid'', GOOGLE_CLIENT_SECRET = ''gsecret'',
       FACEBOOK_CLIENT_ID = ''fid'', FACEBOOK_CLIENT_SECRET = ''fsecret'',
       LINKEDIN_CLIENT_ID = ''lid'', LINKEDIN_CLIENT_SECRET = ''lsecret'' \<rparr>"

definition example_profile :: pyval where
  "example_profile = PDict [(''sub'', PStr ''u1''), (''name'', PStr ''Ada'')]"

definition accepting :: collaborators where
  "accepting =
     \<lparr> random_bytes = (\<lambda>i. 7),
       httpx_post = (\<lambda>url form. Inr \<lparr> status_code = 200, text_body = ''{}'',
                                       json_body = Inr (PDict [(''access_token'', PStr ''t'')]) \<rparr>),
       authorize_access_token = (\<lambda>p. Inr (PDict [(''access_token'', PStr ''t'')])),
       client_get = (\<lambda>p url token. Inr \<lparr> status_code = 200, text_body = ''{}'',
                                            json_body = Inr example_profile \<rparr>) \<rparr>"


definition fresh_state :: state where
  "fresh_state = \<lparr>session = Map.empty, trace = []\<rparr>"

definition start_request :: request where
  "start_request = \<lparr> args = Map.empty, host = ''localhost:5000'' \<rparr>"

definition callback_request :: "string \<Rightarrow> request" where
  "callback_request st_param =
     \<lparr> args = [''code'' \<mapsto> ''c0de'', ''state'' \<mapsto> st_param], host = ''localhost:5000'' \<rparr>"

definition example_nonce :: string where
  "example_nonce = ''07070707070707070707070707070707''"

definition started_state :: state where
  "started_state =
     \<lparr>session = [''redirect_path'' \<mapsto> PStr ''http://localhost:5000/auth/linkedin/callback'',
                 ''oauth_state'' \<mapsto> PStr example_nonce],
      trace = []\<rparr>"

definition pending_state :: state where
  "pending_state = \<lparr>session = [''oauth_state'' \<mapsto> PStr ''aa''], trace = []\<rparr>"

definition complete_source :: config_source where
  "complete_source =
     \<lparr> environ = [''GOOGLE_CLIENT_ID'' \<mapsto> ''gid'', ''GOOGLE_CLIENT_SECRET'' \<mapsto> ''gsecret'',
                   ''FACEBOOK_CLIENT_ID'' \<mapsto> ''fid'', ''FACEBOOK_CLIENT_SECRET'' \<mapsto> ''fsecret''],
       dotenv = [''LINKEDIN_CLIENT_ID'' \<mapsto> ''lid'', ''LINKEDIN_CLIENT_SECRET'' \<mapsto> ''lsecret''] \<rparr>"

definition incomplete_source :: config_source where
  "incomplete_source =
     \<lparr> environ = [''GOOGLE_CLIENT_SECRET'' \<mapsto> ''gsecret'',
                   ''FACEBOOK_CLIENT_ID'' \<mapsto> ''fid'', ''FACEBOOK_CLIENT_SECRET'' \<mapsto> ''fsecret''],
       dotenv = [''LINKEDIN_CLIENT_ID'' \<mapsto> ''lid'', ''LINKEDIN_CLIENT_SECRET'' \<mapsto> ''lsecret''] \<rparr>"

definition no_bool :: "string \<Rightarrow> bool option" where
  "no_bool v = None"




section \<open>The specification's vocabulary\<close>

text \<open>
  The common field names the specification gives a normalized profile, and the profiles
  that use no other name.
\<close>

definition spec_common_fields :: "string set" where
  "spec_common_fields = {''id'', ''name'', ''email'', ''picture''}"

fun spec_normalized :: "pyval \<Rightarrow> bool" where
  "spec_normalized (PDict kvs) = (set (map fst kvs) \<subseteq> spec_common_fields)"
| "spec_normalized _ = False"

section \<open>Facts about the callback\<close>

text \<open>
  Neither the token exchange nor the profile fetch touches the session; a callback whose
  state check fails stops at once; one whose state check passes is the token exchange
  followed by the profile fetch on the session without the nonce.
\<close>

lemma get_token_session: "session (snd (get_token cfg env req st provider)) = session st"
  by (simp add: get_token_def Let_def split: sum.splits option.splits)

lemma fetch_user_data_session: "session (snd (fetch_user_data env st provider token)) = session st"
  by (simp add: fetch_user_data_def Let_def split: sum.splits option.splits)

lemma session_pop_snd: "snd (session_pop s k d) = s(k := None)"
  by (auto simp: session_pop_def split: option.splits)

lemma session_pop_fst: "fst (session_pop s k d) = (case s k of None \<Rightarrow> d | Some v \<Rightarrow> v)"
  by (auto simp: session_pop_def split: option.splits)

lemma callback_invalid:
  assumes "\<not> truthy (session_get (session st) ''oauth_state'')
           \<or> session_get (session st) ''oauth_state'' \<noteq> opt_str (args req ''state'')"
  shows "handle_oauth_callback cfg env req st provider
           = (Inl (BadRequest ''Invalid state parameter.''), st)"
  using assms by (simp add: handle_oauth_callback_def Let_def)

lemma callback_valid:
  assumes "truthy (session_get (session st) ''oauth_state'')"
      and "session_get (session st) ''oauth_state'' = opt_str (args req ''state'')"
  shows "handle_oauth_callback cfg env req st provider =
    (let st1 = st\<lparr>session := (session st)(''oauth_state'' := None)\<rparr>;
         tk = get_token cfg env req st1 provider
     in case fst tk of
          Inl e \<Rightarrow> (Inl e, snd tk)
        | Inr token \<Rightarrow>
           (let fu = fetch_user_data env (snd tk) provider token
            in if \<not> truthy (fst fu)
               then (Inl (InternalServerError ''Failed to fetch user data.''), snd fu)
               else (Inr (Redirect (case session st ''redirect_path'' of
                                      None \<Rightarrow> PStr url_for_success | Some u \<Rightarrow> u)),
                     (snd fu)\<lparr>session := (session st)(''oauth_state'' := None,
                         ''user_data'' \<mapsto> fst fu, ''redirect_path'' := None)\<rparr>)))"
  using assms
  by (simp add: handle_oauth_callback_def Let_def session_pop_snd session_pop_fst
        get_token_session fetch_user_data_session case_prod_beta
        split: sum.splits)

lemma callback_success_valid:
  assumes "fst (handle_oauth_callback cfg env req st provider) = Inr r"
  shows "truthy (session_get (session st) ''oauth_state'')
         \<and> session_get (session st) ''oauth_state'' = opt_str (args req ''state'')"
proof (rule ccontr)
  assume "\<not> ?thesis"
  then have "fst (handle_oauth_callback cfg env req st provider)
               = Inl (BadRequest ''Invalid state parameter.'')"
    by (subst callback_invalid) auto
  with assms show False by simp
qed

lemma stored_differs:
  assumes "session st ''oauth_state'' = None
           \<or> session st ''oauth_state'' \<noteq> map_option PStr (args req ''state'')"
  shows "\<not> truthy (session_get (session st) ''oauth_state'')
         \<or> session_get (session st) ''oauth_state'' \<noteq> opt_str (args req ''state'')"
  using assms
  by (cases "session st ''oauth_state''"; cases "args req ''state''")
     (auto simp: session_get_def opt_str_def)

lemma fetch_user_data_truthy:
  assumes "truthy (fst (fetch_user_data env st provider token))"
  shows "\<exists>p resp. provider = Some p
           \<and> client_get env p (userinfo_url provider) token = Inr resp
           \<and> status_code resp = 200
           \<and> json_body resp = Inr (fst (fetch_user_data env st provider token))"
  using assms
  by (auto simp: fetch_user_data_def clients_get_def Let_def
           split: option.splits sum.splits if_splits)

text \<open>The concrete session holding \<open>aa\<close> passes the state check of a callback echoing \<open>aa\<close>.\<close>

lemma pending_valid_aa:
  "truthy (session_get (session pending_state) ''oauth_state'')"
  "session_get (session pending_state) ''oauth_state'' = opt_str (args (callback_request ''aa'') ''state'')"
  by (simp_all add: pending_state_def callback_request_def session_get_def opt_str_def)

lemma linkedin_login_result:
  "handle_oauth_callback example_config accepting (callback_request ''aa'') pending_state (Some LINKEDIN)
   = (Inr (Redirect (PStr url_for_success)),
      \<lparr>session = (session pending_state)(''oauth_state'' := None, ''user_data'' \<mapsto> example_profile,
                   ''redirect_path'' := None),
       trace = [TokenPost linkedin_token_url (token_data example_config (callback_request ''aa'')),
                UserinfoGet LINKEDIN (userinfo_url (Some LINKEDIN)) (PDict [(''access_token'', PStr ''t'')])]\<rparr>)"
  unfolding callback_valid [OF pending_valid_aa]
  by (simp add: get_token_def fetch_user_data_def accepting_def Let_def clients_get_def
         example_profile_def pending_state_def)

section \<open>Facts about the start of a login\<close>

text \<open>
  The hexadecimal rendering is injective and doubles the length; a start with a supported
  provider writes the callback URL and the nonce, and hands both to the client library.
\<close>

lemma hex_digit_inj:
  assumes "i < 16" and "j < 16" and "hex_digit i = hex_digit j"
  shows "i = j"
proof -
  have d: "distinct ''0123456789abcdef''" by simp
  have l: "length ''0123456789abcdef'' = 16" by simp
  from assms d l show ?thesis
    unfolding hex_digit_def by (metis nth_eq_iff_index_eq)
qed

lemma byte_hex_inj:
  assumes "byte_hex a = byte_hex b"
  shows "a = b"
proof -
  have ua: "unat a < 256" using unsigned_less [of a, where 'a=nat] by simp
  have ub: "unat b < 256" using unsigned_less [of b, where 'a=nat] by simp
  from ua have a1: "unat a div 16 < 16" by simp
  from ub have b1: "unat b div 16 < 16" by simp
  have a2: "unat a mod 16 < 16" and b2: "unat b mod 16 < 16" by simp_all
  from assms have h1: "hex_digit (unat a div 16) = hex_digit (unat b div 16)"
    and h2: "hex_digit (unat a mod 16) = hex_digit (unat b mod 16)"
    by (simp_all add: byte_hex_def)
  have "unat a div 16 = unat b div 16" by (rule hex_digit_inj [OF a1 b1 h1])
  moreover have "unat a mod 16 = unat b mod 16" by (rule hex_digit_inj [OF a2 b2 h2])
  ultimately have "unat a = unat b" by (metis div_mult_mod_eq)
  then show ?thesis by (rule word_unat_eq_iff [THEN iffD2])
qed

lemma length_byte_hex: "length (byte_hex b) = 2"
  by (simp add: byte_hex_def)

lemma length_bytes_hex: "length (bytes_hex bs) = 2 * length bs"
  by (induction bs) (simp_all add: bytes_hex_def length_byte_hex)

lemma bytes_hex_inj: "bytes_hex xs = bytes_hex ys \<Longrightarrow> xs = ys"
proof (induction xs arbitrary: ys)
  case Nil
  then have "length (bytes_hex ys) = 0" by (simp add: bytes_hex_def)
  then show ?case by (simp add: length_bytes_hex)
next
  case (Cons x xs)
  from Cons.prems have "length (bytes_hex ys) = length (bytes_hex (x # xs))" by simp
  then have "length (bytes_hex ys) = 2 * length (x # xs)"
    by (simp only: length_bytes_hex)
  then obtain y ys' where ys: "ys = y # ys'" by (cases ys) (simp_all add: length_bytes_hex)
  from Cons.prems ys have "byte_hex x @ bytes_hex xs = byte_hex y @ bytes_hex ys'"
    by (simp add: bytes_hex_def)
  then have "byte_hex x = byte_hex y" and "bytes_hex xs = bytes_hex ys'"
    by (simp_all add: length_byte_hex)
  with Cons.IH ys show ?case by (simp add: byte_hex_inj)
qed

lemma length_os_urandom: "length (os_urandom env n) = n"
  by (simp add: os_urandom_def)

lemma start_result:
  "initiate_social_login cfg env req st (Some p)
     = (Inr (AuthorizeRedirect p (url_for_auth_callback cfg req p) (bytes_hex (os_urandom env 16))),
        st\<lparr>session := (session st)(''redirect_path'' \<mapsto> PStr (url_for_auth_callback cfg req p),
                                    ''oauth_state'' \<mapsto> PStr (bytes_hex (os_urandom env 16)))\<rparr>)"
  by (simp add: initiate_social_login_def clients_get_def Let_def)

lemma nonce_value: "bytes_hex (os_urandom accepting 16) = example_nonce"
  by (simp add: os_urandom_def accepting_def upt_rec bytes_hex_def byte_hex_def hex_digit_def
        example_nonce_def)

lemma started_state_start:
  "snd (initiate_social_login example_config accepting start_request fresh_state (Some LINKEDIN))
     = started_state"
  by (simp add: start_result nonce_value fresh_state_def started_state_def
        url_for_auth_callback_def example_config_def start_request_def)

lemma started_valid:
  "truthy (session_get (session started_state) ''oauth_state'')"
  "session_get (session started_state) ''oauth_state''
     = opt_str (args (callback_request example_nonce) ''state'')"
  by (simp_all add: started_state_def callback_request_def session_get_def opt_str_def
        example_nonce_def)

lemma round_trip_result:
  "handle_oauth_callback example_config accepting (callback_request example_nonce) started_state
      (Some LINKEDIN)
   = (Inr (Redirect (PStr ''http://localhost:5000/auth/linkedin/callback'')),
      \<lparr>session = (session started_state)(''oauth_state'' := None,
                   ''user_data'' \<mapsto> example_profile, ''redirect_path'' := None),
       trace = [TokenPost linkedin_token_url
                  (token_data example_config (callback_request example_nonce)),
                UserinfoGet LINKEDIN (userinfo_url (Some LINKEDIN))
                  (PDict [(''access_token'', PStr ''t'')])]\<rparr>)"
  unfolding callback_valid [OF started_valid]
  by (simp add: get_token_def fetch_user_data_def accepting_def Let_def clients_get_def
         example_profile_def started_state_def)

section \<open>The state nonce\<close>

text \<open>
  C1, as stated, at a concrete input: a session holding the nonce \<open>aa\<close> receives a callback
  with the state \<open>bb\<close>. The callback fails on the state check, which raises before the
  \<^verbatim>\<open>session.pop\<close>, and the nonce is still in the session afterwards.
\<close>

theorem nonce_kept_on_failed_validation:
  "fst (handle_oauth_callback example_config accepting (callback_request ''bb'')
          pending_state (Some GOOGLE)) = Inl (BadRequest ''Invalid state parameter.'')
   \<and> session (snd (handle_oauth_callback example_config accepting (callback_request ''bb'')
          pending_state (Some GOOGLE))) ''oauth_state'' = Some (PStr ''aa'')"
  by (simp add: handle_oauth_callback_def pending_state_def callback_request_def
        session_get_def opt_str_def)

text \<open>
  C1, amended: when the state check passes, the stored nonce is removed from the session
  before the token exchange, so that the session no longer contains \<open>oauth_state\<close> after the
  callback, whether the later steps succeed or fail; when the state check fails, the
  callback fails with the invalid-state error and leaves session and trace as they were.
\<close>

theorem nonce_removed_after_validation:
  "(truthy (session_get (session st) ''oauth_state'')
      \<and> session_get (session st) ''oauth_state'' = opt_str (args req ''state'')
     \<longrightarrow> session (snd (handle_oauth_callback cfg env req st provider)) ''oauth_state'' = None)
   \<and> (\<not> truthy (session_get (session st) ''oauth_state'')
      \<or> session_get (session st) ''oauth_state'' \<noteq> opt_str (args req ''state'')
     \<longrightarrow> handle_oauth_callback cfg env req st provider
           = (Inl (BadRequest ''Invalid state parameter.''), st))"
proof (intro conjI impI)
  assume v: "truthy (session_get (session st) ''oauth_state'')
      \<and> session_get (session st) ''oauth_state'' = opt_str (args req ''state'')"
  note unfolded = callback_valid [OF conjunct1 [OF v] conjunct2 [OF v], of cfg env provider]
  show "session (snd (handle_oauth_callback cfg env req st provider)) ''oauth_state'' = None"
    unfolding unfolded
    by (simp add: Let_def get_token_session fetch_user_data_session split: sum.splits)
next
  assume "\<not> truthy (session_get (session st) ''oauth_state'')
      \<or> session_get (session st) ''oauth_state'' \<noteq> opt_str (args req ''state'')"
  then show "handle_oauth_callback cfg env req st provider
           = (Inl (BadRequest ''Invalid state parameter.''), st)"
    by (rule callback_invalid)
qed

text \<open>The amended C1 on the session holding \<open>aa\<close>: a callback echoing \<open>aa\<close>, and one sending \<open>bb\<close>.\<close>

theorem nonce_removed_after_validation_witness:
  "session (snd (handle_oauth_callback example_config accepting (callback_request ''aa'')
       pending_state (Some LINKEDIN))) ''oauth_state'' = None
   \<and> handle_oauth_callback example_config accepting (callback_request ''bb'')
       pending_state (Some LINKEDIN) = (Inl (BadRequest ''Invalid state parameter.''), pending_state)"
  using nonce_removed_after_validation [of pending_state "callback_request ''aa''" example_config accepting "Some LINKEDIN"]
    nonce_removed_after_validation [of pending_state "callback_request ''bb''" example_config accepting "Some LINKEDIN"]
  by (simp add: pending_state_def callback_request_def session_get_def opt_str_def)

text \<open>
  C2: when the received \<open>state\<close> differs from the stored \<open>oauth_state\<close>, or no \<open>oauth_state\<close>
  is stored, the callback fails with the invalid-state error (\<open>BadRequest\<close> with the
  message "Invalid state parameter."), for every provider argument, and the token exchange
  is not reached: the trace of outbound calls and the session are unchanged.
\<close>

theorem state_mismatch_rejected:
  assumes "session st ''oauth_state'' = None
           \<or> session st ''oauth_state'' \<noteq> map_option PStr (args req ''state'')"
  shows "fst (handle_oauth_callback cfg env req st provider)
           = Inl (BadRequest ''Invalid state parameter.'')
         \<and> trace (snd (handle_oauth_callback cfg env req st provider)) = trace st
         \<and> session (snd (handle_oauth_callback cfg env req st provider)) = session st"
  using stored_differs [OF assms] by (simp add: callback_invalid)

text \<open>C2 on a mismatching state, and on a session that stores no nonce.\<close>

theorem state_mismatch_rejected_witness:
  "fst (handle_oauth_callback example_config accepting (callback_request ''bb'')
          pending_state (Some LINKEDIN)) = Inl (BadRequest ''Invalid state parameter.'')
   \<and> trace (snd (handle_oauth_callback example_config accepting (callback_request ''bb'')
          pending_state (Some LINKEDIN))) = []
   \<and> fst (handle_oauth_callback example_config accepting (callback_request ''aa'')
          fresh_state (Some LINKEDIN)) = Inl (BadRequest ''Invalid state parameter.'')
   \<and> trace (snd (handle_oauth_callback example_config accepting (callback_request ''aa'')
          fresh_state (Some LINKEDIN))) = []"
  using state_mismatch_rejected [of pending_state "callback_request ''bb''" example_config accepting "Some LINKEDIN"]
    state_mismatch_rejected [of fresh_state "callback_request ''aa''" example_config accepting "Some LINKEDIN"]
  by (simp add: pending_state_def callback_request_def fresh_state_def)

section \<open>Startup with an incomplete configuration\<close>

text \<open>A source that provides all six credentials starts, with \<open>DEBUG\<close> off by default.\<close>

lemma complete_source_starts:
  "create_app no_bool complete_source = Inr (example_config \<lparr> DEBUG := False \<rparr>)"
  by (simp add: create_app_def import_settings_def load_config_module_def Config_init_def
        missing_fields_def required_fields_def debug_field_def source_lookup_def
        complete_source_def example_config_def)

text \<open>
  C3, as stated, at a concrete input: a configuration source without \<open>GOOGLE_CLIENT_ID\<close>.
  The constructor raises the validation error, the configuration module catches it and
  binds no \<open>settings\<close>, and what stops the startup is the \<open>ImportError\<close> of the service
  module, not a configuration error.
\<close>

theorem missing_credential_startup:
  "Config_init no_bool incomplete_source = Inl (ValidationError [''GOOGLE_CLIENT_ID''])
   \<and> settings (load_config_module no_bool incomplete_source) = None
   \<and> create_app no_bool incomplete_source = Inl (ImportError ''settings'')"
  by (simp add: create_app_def import_settings_def load_config_module_def Config_init_def
        missing_fields_def required_fields_def debug_field_def source_lookup_def
        incomplete_source_def)

text \<open>
  C3, amended: whenever one of the six required credentials is missing from the
  configuration source, the startup fails: the configuration module prints a validation
  error naming the missing field and binds no \<open>settings\<close>, and the creation of the
  application fails with \<open>ImportError\<close> on \<open>settings\<close>, so no request is served.
\<close>

theorem missing_credential_import_error:
  assumes "k \<in> set required_fields" and "source_lookup src k = None"
  shows "create_app parse_bool src = Inl (ImportError ''settings'')
         \<and> (\<exists>bad. printed (load_config_module parse_bool src) = [ValidationError bad]
                   \<and> k \<in> set bad)"
proof -
  from assms have "k \<in> set (missing_fields src)" by (simp add: missing_fields_def)
  then show ?thesis
    by (auto simp: create_app_def import_settings_def load_config_module_def Config_init_def
          Let_def split: option.splits)
qed

text \<open>The amended C3 on the source without \<open>GOOGLE_CLIENT_ID\<close>.\<close>

theorem missing_credential_import_error_witness:
  "''GOOGLE_CLIENT_ID'' \<in> set required_fields
   \<and> source_lookup incomplete_source ''GOOGLE_CLIENT_ID'' = None
   \<and> create_app no_bool incomplete_source = Inl (ImportError ''settings'')
   \<and> printed (load_config_module no_bool incomplete_source) = [ValidationError [''GOOGLE_CLIENT_ID'']]"
proof -
  have a: "''GOOGLE_CLIENT_ID'' \<in> set required_fields" by (simp add: required_fields_def)
  have b: "source_lookup incomplete_source ''GOOGLE_CLIENT_ID'' = None"
    by (simp add: source_lookup_def incomplete_source_def)
  have c: "printed (load_config_module no_bool incomplete_source) = [ValidationError [''GOOGLE_CLIENT_ID'']]"
    by (simp add: load_config_module_def Config_init_def
        missing_fields_def required_fields_def debug_field_def source_lookup_def
        incomplete_source_def)
  from missing_credential_import_error [OF a b, of no_bool] a b c show ?thesis by simp
qed

section \<open>The profile\<close>

text \<open>
  C4, as stated, at a concrete input: a LinkedIn login whose profile endpoint answers with
  the fields \<open>sub\<close> and \<open>name\<close>. The value written to \<open>user_data\<close> still has the field
  \<open>sub\<close>, which is not one of the common names, and the callback returns a redirect, not
  the profile.
\<close>

theorem profile_not_normalized:
  "session (snd (handle_oauth_callback example_config accepting (callback_request ''aa'')
        pending_state (Some LINKEDIN))) ''user_data''
     = Some (PDict [(''sub'', PStr ''u1''), (''name'', PStr ''Ada'')])
   \<and> \<not> spec_normalized (PDict [(''sub'', PStr ''u1''), (''name'', PStr ''Ada'')])
   \<and> fst (handle_oauth_callback example_config accepting (callback_request ''aa'')
        pending_state (Some LINKEDIN)) = Inr (Redirect (PStr ''/success''))"
  by (simp add: linkedin_login_result example_profile_def spec_common_fields_def url_for_success_def)

text \<open>
  C4, amended: for every successful callback, the value written to \<open>user_data\<close> is the
  decoded JSON body of the provider's 200 answer to the profile request, unchanged: no
  field is renamed, none is added and none is dropped; the callback returns a redirect.
\<close>

theorem profile_stored_as_received:
  assumes "handle_oauth_callback cfg env req st provider = (Inr r, st')"
  shows "\<exists>p token resp v loc.
           provider = Some p
         \<and> client_get env p (userinfo_url provider) token = Inr resp
         \<and> status_code resp = 200
         \<and> json_body resp = Inr v
         \<and> session st' ''user_data'' = Some v
         \<and> r = Redirect loc"
proof -
  from assms have ok: "fst (handle_oauth_callback cfg env req st provider) = Inr r" by simp
  note v = callback_success_valid [OF ok]
  define st1 where "st1 = st\<lparr>session := (session st)(''oauth_state'' := None)\<rparr>"
  define tk where "tk = get_token cfg env req st1 provider"
  from assms obtain token where tok: "fst tk = Inr token"
    unfolding callback_valid [OF conjunct1 [OF v] conjunct2 [OF v]] tk_def st1_def
    by (auto simp: Let_def split: sum.splits)
  define fu where "fu = fetch_user_data env (snd tk) provider token"
  from assms tok have t: "truthy (fst fu)"
    and s: "session st' ''user_data'' = Some (fst fu)" and r: "\<exists>loc. r = Redirect loc"
    unfolding callback_valid [OF conjunct1 [OF v] conjunct2 [OF v]] tk_def st1_def fu_def
    by (auto simp: Let_def split: sum.splits if_splits)
  from fetch_user_data_truthy [OF t [unfolded fu_def]] s r show ?thesis
    unfolding fu_def by blast
qed

text \<open>The amended C4 on the LinkedIn login above.\<close>

theorem profile_stored_as_received_witness:
  "handle_oauth_callback example_config accepting (callback_request ''aa'') pending_state (Some LINKEDIN)
     = (Inr (Redirect (PStr url_for_success)),
      \<lparr>session = (session pending_state)(''oauth_state'' := None, ''user_data'' \<mapsto> example_profile,
                   ''redirect_path'' := None),
       trace = [TokenPost linkedin_token_url (token_data example_config (callback_request ''aa'')),
                UserinfoGet LINKEDIN (userinfo_url (Some LINKEDIN)) (PDict [(''access_token'', PStr ''t'')])]\<rparr>)
   \<and> (\<exists>p token resp v loc.
           Some LINKEDIN = Some p
         \<and> client_get accepting p (userinfo_url (Some LINKEDIN)) token = Inr resp
         \<and> status_code resp = 200
         \<and> json_body resp = Inr v
         \<and> ((session pending_state)(''oauth_state'' := None, ''user_data'' \<mapsto> example_profile,
                   ''redirect_path'' := None)) ''user_data'' = Some v
         \<and> Redirect (PStr url_for_success) = Redirect loc)"
  using profile_stored_as_received [OF linkedin_login_result] linkedin_login_result
  by simp

section \<open>Unsupported providers\<close>

text \<open>
  C5, as stated, at a concrete input: the identifier \<open>twitter\<close>. The lookup returns
  \<^verbatim>\<open>None\<close> instead of failing, and a callback for it whose state check passes ends in an
  \<open>AttributeError\<close>, not in an unsupported-provider error.
\<close>

theorem unknown_provider_not_rejected:
  "get_provider ''twitter'' = None
   \<and> fst (handle_oauth_callback example_config accepting (callback_request ''aa'')
            pending_state (get_provider ''twitter'')) = Inl AttributeError"
  unfolding callback_valid [OF pending_valid_aa]
  by (simp add: get_provider_def get_token_def clients_get_def)

text \<open>
  C5, amended: for every identifier other than \<open>google\<close>, \<open>facebook\<close> and \<open>linkedin\<close>, the
  lookup \<open>get_provider\<close> returns \<^verbatim>\<open>None\<close> without failing, and a start invoked with that
  result fails with the unsupported-provider error (\<open>BadRequest\<close> with the message
  "Unsupported provider: None") and leaves the session and the trace unchanged.
\<close>

theorem unknown_provider_start:
  assumes "provider_name \<notin> {''google'', ''facebook'', ''linkedin''}"
  shows "get_provider provider_name = None
         \<and> initiate_social_login cfg env req st (get_provider provider_name)
             = (Inl (BadRequest ''Unsupported provider: None''), st)"
  using assms
  by (simp add: get_provider_def initiate_social_login_def clients_get_def format_provider_def)

text \<open>The amended C5 on the identifier \<open>twitter\<close>.\<close>

theorem unknown_provider_start_witness:
  "''twitter'' \<notin> {''google'', ''facebook'', ''linkedin''}
   \<and> get_provider ''twitter'' = None
   \<and> initiate_social_login example_config accepting start_request fresh_state (get_provider ''twitter'')
             = (Inl (BadRequest ''Unsupported provider: None''), fresh_state)"
  using unknown_provider_start [of "''twitter''" example_config accepting start_request fresh_state]
  by (simp add: get_provider_def)

section \<open>Token exchange\<close>




section \<open>The redirect path\<close>



section \<open>Nonce freshness\<close>

text \<open>
  C8: for every supported provider, a start draws 16 bytes from the random source and
  renders them as 32 hexadecimal characters; that string is the \<open>state\<close> parameter of the
  produced redirect and the stored \<open>oauth_state\<close>, so the parameter is present and not
  empty; and two starts whose 16 random bytes differ produce different \<open>state\<close> values.
\<close>

theorem start_nonce_fresh:
  "length (os_urandom env 16) = 16
   \<and> redirect_state (fst (initiate_social_login cfg env req st (Some p)))
       = Some (bytes_hex (os_urandom env 16))
   \<and> session (snd (initiate_social_login cfg env req st (Some p))) ''oauth_state''
       = Some (PStr (bytes_hex (os_urandom env 16)))
   \<and> length (bytes_hex (os_urandom env 16)) = 32
   \<and> bytes_hex (os_urandom env 16) \<noteq> []
   \<and> (os_urandom env 16 \<noteq> os_urandom env' 16
      \<longrightarrow> redirect_state (fst (initiate_social_login cfg env req st (Some p)))
          \<noteq> redirect_state (fst (initiate_social_login cfg' env' req' st' (Some p'))))"
proof -
  have l: "length (bytes_hex (os_urandom env 16)) = 32"
    by (simp add: length_bytes_hex length_os_urandom)
  then have ne: "bytes_hex (os_urandom env 16) \<noteq> []" by auto
  have inj: "os_urandom env 16 \<noteq> os_urandom env' 16
      \<Longrightarrow> bytes_hex (os_urandom env 16) \<noteq> bytes_hex (os_urandom env' 16)"
    using bytes_hex_inj by blast
  show ?thesis using l ne inj by (simp add: start_result length_os_urandom)
qed

text \<open>C8 on two random sources, one giving the byte 7 and one the byte 9.\<close>

theorem start_nonce_fresh_witness:
  "os_urandom accepting 16 \<noteq> os_urandom (accepting\<lparr>random_bytes := (\<lambda>i. 9)\<rparr>) 16
   \<and> redirect_state (fst (initiate_social_login example_config accepting start_request fresh_state (Some GOOGLE)))
          \<noteq> redirect_state (fst (initiate_social_login example_config
               (accepting\<lparr>random_bytes := (\<lambda>i. 9)\<rparr>) start_request fresh_state (Some GOOGLE)))"
proof -
  have d: "os_urandom accepting 16 \<noteq> os_urandom (accepting\<lparr>random_bytes := (\<lambda>i. 9)\<rparr>) 16"
    by (simp add: os_urandom_def accepting_def upt_rec)
  with start_nonce_fresh [of accepting example_config start_request fresh_state GOOGLE
        "accepting\<lparr>random_bytes := (\<lambda>i. 9)\<rparr>" example_config start_request fresh_state GOOGLE]
  show ?thesis by blast
qed

section \<open>Logout\<close>

text \<open>
  C9: for every session state, logout removes \<open>user_data\<close>, \<open>oauth_state\<close> and
  \<open>redirect_path\<close> from the session; reading the profile afterwards gives \<^verbatim>\<open>None\<close>, and
  the success page, which shows the profile, redirects to the failure page.
\<close>

theorem logout_clears_session:
  "session (snd (logout st)) ''user_data'' = None
   \<and> session (snd (logout st)) ''oauth_state'' = None
   \<and> session (snd (logout st)) ''redirect_path'' = None
   \<and> session_get (session (snd (logout st))) ''user_data'' = PNone
   \<and> fst (success (snd (logout st))) = Inr (Redirect (PStr url_for_failure))"
  by (simp add: logout_def success_def session_get_def)

section \<open>The index page\<close>

text \<open>
  No route writes the session key \<open>user\<close>: a start writes \<open>redirect_path\<close> and
  \<open>oauth_state\<close>, a failed start flashes a message, a callback touches \<open>oauth_state\<close>,
  \<open>user_data\<close> and \<open>redirect_path\<close>, and logout empties the session.
\<close>

lemma initiate_user:
  "session (snd (initiate_social_login cfg env req st provider)) ''user'' = session st ''user''"
  by (cases provider) (simp_all add: initiate_social_login_def clients_get_def Let_def)

lemma flash_user: "flash s m = Inr s' \<Longrightarrow> s' ''user'' = s ''user''"
  by (auto simp: flash_def Let_def split: option.splits pyval.splits)

lemma social_login_user:
  "session (snd (social_login cfg env req st provider)) ''user'' = session st ''user''"
  by (auto simp: social_login_def initiate_user [of cfg env req st "get_provider provider", symmetric]
        split: prod.splits sum.splits dest: flash_user)

lemma handle_user:
  "session (snd (handle_oauth_callback cfg env req st provider)) ''user'' = session st ''user''"
proof (cases "truthy (session_get (session st) ''oauth_state'')
         \<and> session_get (session st) ''oauth_state'' = opt_str (args req ''state'')")
  case True
  note u = callback_valid [OF conjunct1 [OF True] conjunct2 [OF True], of cfg env provider]
  show ?thesis unfolding u
    by (simp add: Let_def get_token_session fetch_user_data_session split: sum.splits)
next
  case False
  then show ?thesis by (subst callback_invalid) auto
qed

lemma auth_callback_user:
  "session (snd (auth_callback cfg env req st provider)) ''user'' = session st ''user''"
  using handle_user [of cfg env req st "get_provider provider"]
  by (auto simp: auth_callback_def split: prod.splits sum.splits option.splits)

lemma reachable_no_user: "reachable st \<Longrightarrow> session st ''user'' = None"
proof (induction rule: reachable.induct)
  case fresh
  show ?case by simp
next
  case (via_index st)
  then show ?case by (simp add: index_def Let_def)
next
  case (via_social_login st cfg env req provider)
  then show ?case by (simp add: social_login_user)
next
  case (via_auth_callback st cfg env req provider)
  then show ?case by (simp add: auth_callback_user)
next
  case (via_success st)
  then show ?case by (simp add: success_def Let_def)
next
  case (via_failure st)
  then show ?case by (simp add: failure_def)
next
  case (via_logout st)
  then show ?case by (simp add: logout_def)
qed

lemma social_login_started:
  "snd (social_login example_config accepting start_request fresh_state ''linkedin'')
     = started_state"
  using started_state_start
  by (simp add: social_login_def get_provider_def start_result)

lemma logged_in_session:
  "session (snd (auth_callback example_config accepting (callback_request example_nonce)
        started_state ''linkedin'')) ''user_data'' = Some example_profile"
  by (simp add: auth_callback_def get_provider_def round_trip_result)

text \<open>
  C10: the index page reads the session key \<open>user\<close>, which no operation writes (a
  successful callback writes the profile under \<open>user_data\<close>); so in every reachable session
  state the index page is rendered with \<^verbatim>\<open>None\<close> as its user.
\<close>

theorem index_never_shows_user:
  assumes "reachable st"
  shows "fst (index st) = Inr (Render ''index.html'' (Some PNone))"
  using reachable_no_user [OF assms] by (simp add: index_def session_get_def)

text \<open>
  C10 on the state after a fully successful LinkedIn login: the profile is in the session
  under \<open>user_data\<close>, and the index page shows no user.
\<close>

theorem index_never_shows_user_witness:
  "reachable (snd (auth_callback example_config accepting (callback_request example_nonce)
        (snd (social_login example_config accepting start_request fresh_state ''linkedin''))
        ''linkedin''))
   \<and> session (snd (auth_callback example_config accepting (callback_request example_nonce)
        (snd (social_login example_config accepting start_request fresh_state ''linkedin''))
        ''linkedin'')) ''user_data'' = Some example_profile
   \<and> fst (index (snd (auth_callback example_config accepting (callback_request example_nonce)
        (snd (social_login example_config accepting start_request fresh_state ''linkedin''))
        ''linkedin''))) = Inr (Render ''index.html'' (Some PNone))"
proof -
  have r0: "reachable fresh_state" unfolding fresh_state_def by (rule reachable.fresh)
  have r1: "reachable (snd (social_login example_config accepting start_request fresh_state ''linkedin''))"
    by (rule reachable.via_social_login [OF r0])
  have r2: "reachable (snd (auth_callback example_config accepting (callback_request example_nonce)
        (snd (social_login example_config accepting start_request fresh_state ''linkedin''))
        ''linkedin''))"
    by (rule reachable.via_auth_callback [OF r1])
  from r2 index_never_shows_user [OF r2] logged_in_session show ?thesis
    by (simp add: social_login_started)
qed

end
